theory Spec2Isabelle
  imports Complex_Main
begin

section \<open>The door alarm controller of \<^verbatim>\<open>app.py\<close>\<close>

text \<open>
  The program is one object, \<^verbatim>\<open>SecuritySystem\<close>, whose methods run as callbacks: the
  MQTT client calls \<^verbatim>\<open>on_message\<close> for every inbound message, and three one-shot
  \<^verbatim>\<open>threading.Timer\<close>s call \<^verbatim>\<open>trigger_alarm\<close>, \<^verbatim>\<open>end_button_timer\<close> and
  \<^verbatim>\<open>reset_alarm\<close>. Every method is a function from the state before it to the state
  after it. A callback does not run in one piece: \<^verbatim>\<open>start_trigger_timer\<close> and
  \<^verbatim>\<open>trigger_alarm\<close> set the new state while they hold \<^verbatim>\<open>state_lock\<close>, release the lock,
  and store the handle of the timer they start only at their end. For
  \<^verbatim>\<open>trigger_alarm\<close> the two parts are defined on their own as well, so that a message
  handled between them can be stated. \<^verbatim>\<open>start\<close>, \<^verbatim>\<open>on_connect\<close> and \<^verbatim>\<open>load_users\<close>, which
  set the program up, are not modelled: the configuration and the allow-list are
  parameters.

  What the program does to the outside world (log calls, messages handed to the MQTT
  client, HTTP requests to Telegram) is recorded, in order, in the field \<open>out\<close>.
  Timers live in a small model of the timer service: the list \<open>timers\<close> holds the
  timers that were started and have neither fired nor been cancelled.
\<close>

subsection \<open>JSON values and the Python operations applied to them\<close>

text \<open>
  \<^verbatim>\<open>json.loads\<close> yields a dict, a list, a str, an int, a float, a bool or None. A dict
  is kept as the list of its items (keys are unique in a dict). A str is kept as the
  bytes of its UTF-8 encoding: equality, emptiness and the substring test on the bytes
  agree with Python's on the str. What \<^verbatim>\<open>str.lower\<close> does to a str is not defined here:
  it is the parameter \<open>str_lower\<close> of the configuration below.
\<close>

datatype json =
    JNull
  | JBool bool
  | JInt int
  | JFloat real
  | JStr string
  | JArr "json list"
  | JObj "(string \<times> json) list"

datatype exn =
    TypeError
  | KeyError
  | AttributeError
  | ValueError
  | DecodeError
  | RequestError

text \<open>Truth value of a Python object, as \<^verbatim>\<open>not x\<close> and \<^verbatim>\<open>if x\<close> read it.\<close>

fun truthy :: "json \<Rightarrow> bool" where
  "truthy JNull = False"
| "truthy (JBool b) = b"
| "truthy (JInt n) = (n \<noteq> 0)"
| "truthy (JFloat x) = (x \<noteq> 0)"
| "truthy (JStr s) = (s \<noteq> [])"
| "truthy (JArr xs) = (xs \<noteq> [])"
| "truthy (JObj kvs) = (kvs \<noteq> [])"

fun startswith :: "string \<Rightarrow> string \<Rightarrow> bool" where
  "startswith s [] = True"
| "startswith [] (p # ps) = False"
| "startswith (c # cs) (p # ps) = (c = p \<and> startswith cs ps)"

fun substring :: "string \<Rightarrow> string \<Rightarrow> bool" where
  "substring needle [] = (needle = [])"
| "substring needle (c # cs) = (startswith (c # cs) needle \<or> substring needle cs)"

text \<open>
  \<^verbatim>\<open>key in data\<close> for a str key: key membership for a dict, element membership for a
  list, substring test for a str, and TypeError for every other value ("argument of
  type 'int' is not iterable").
\<close>

fun py_in :: "string \<Rightarrow> json \<Rightarrow> exn + bool" where
  "py_in k (JObj kvs) = Inr (k \<in> set (map fst kvs))"
| "py_in k (JArr xs) = Inr (JStr k \<in> set xs)"
| "py_in k (JStr s) = Inr (substring k s)"
| "py_in k JNull = Inl TypeError"
| "py_in k (JBool b) = Inl TypeError"
| "py_in k (JInt n) = Inl TypeError"
| "py_in k (JFloat x) = Inl TypeError"

text \<open>
  \<^verbatim>\<open>data[key]\<close> for a str key: the value for a dict (KeyError when absent), TypeError
  for a list or str (indices must be integers) and for values that are not
  subscriptable.
\<close>

fun py_getitem :: "json \<Rightarrow> string \<Rightarrow> exn + json" where
  "py_getitem (JObj kvs) k = (case map_of kvs k of None \<Rightarrow> Inl KeyError | Some v \<Rightarrow> Inr v)"
| "py_getitem (JArr xs) k = Inl TypeError"
| "py_getitem (JStr s) k = Inl TypeError"
| "py_getitem JNull k = Inl TypeError"
| "py_getitem (JBool b) k = Inl TypeError"
| "py_getitem (JInt n) k = Inl TypeError"
| "py_getitem (JFloat x) k = Inl TypeError"

text \<open>
  \<^verbatim>\<open>str.lower\<close> on a str of ASCII characters: the letters A to Z become a to z. It is
  used for the example configuration only, whose identifiers are ASCII.
\<close>

definition ascii_lower_char :: "char \<Rightarrow> char" where
  "ascii_lower_char c =
     (case map_of (zip ''ABCDEFGHIJKLMNOPQRSTUVWXYZ'' ''abcdefghijklmnopqrstuvwxyz'') c of
        None \<Rightarrow> c
      | Some d \<Rightarrow> d)"

definition ascii_lower :: "string \<Rightarrow> string" where
  "ascii_lower s = map ascii_lower_char s"

subsection \<open>Configuration, messages and effects\<close>

text \<open>
  The module-level variables read from the environment, and \<^verbatim>\<open>ALLOWED_USERS\<close>, the
  content of \<^verbatim>\<open>users.json\<close>: a list of records with a str field \<^verbatim>\<open>uid\<close> (other fields
  of an entry are never read). The last three fields are the library functions the
  program calls: \<open>str_lower\<close> is Python's \<^verbatim>\<open>str.lower\<close>; \<open>mqtt_publish\<close> tells whether
  \<^verbatim>\<open>mqtt_client.publish(topic, payload)\<close> returns (\<open>None\<close>) or raises; \<open>http_post\<close> is the
  answer of the Telegram service to a request: a response, or an exception of
  \<^verbatim>\<open>requests.post\<close>.
\<close>

record user =
  uid :: string

record response =
  status_code :: int
  body :: string

record env =
  DOOR_TOPIC :: string
  ACCESS_TOPIC :: string
  ACCESS_TOPIC_STATUS :: string
  ACCESS_COMMAND :: string
  ACCESS_BUTTON :: string
  ACCESS_BUTTON_PAYLOAD :: string
  TRIGGER_TIME :: int
  TELEGRAM_TOKEN :: string
  TELEGRAM_CHATID :: string
  ALLOWED_USERS :: "user list"
  str_lower :: "string \<Rightarrow> string"
  mqtt_publish :: "string \<Rightarrow> json \<Rightarrow> exn option"
  http_post :: "string \<Rightarrow> json \<Rightarrow> exn + response"

definition ALARM_DURATION :: "env \<Rightarrow> int" where
  "ALARM_DURATION cfg = TRIGGER_TIME cfg"

text \<open>
  An inbound message: its topic, and what
  \<^verbatim>\<open>json.loads(msg.payload.decode("utf-8"))\<close> gives for its payload: the decoded value,
  or the exception of a payload that is not UTF-8 or not JSON.
\<close>

record message =
  topic :: string
  payload :: "exn + json"

datatype level = DEBUG | INFO | WARNING | ERROR

datatype arg = AStr string | AInt int | AJson json | AExn exn

text \<open>
  \<open>Log\<close> is a call of the logging module (level, format string, arguments), \<open>Publish\<close>
  a call of \<^verbatim>\<open>mqtt_client.publish(topic, json.dumps(d))\<close>, \<open>Post\<close> a call of
  \<^verbatim>\<open>requests.post(url, json=d)\<close>. The call is recorded whether it returns or raises.
\<close>

datatype effect =
    Log level string "arg list"
  | Publish string json
  | Post string json

datatype callback = TriggerAlarm | EndButtonTimer | ResetAlarm

record timer =
  tid :: nat
  interval :: int
  target :: callback

text \<open>
  The fields of \<^verbatim>\<open>SecuritySystem\<close> (a timer handle is the identity of the Timer object,
  \<open>None\<close> for Python's None), then the timer service and the effects issued so far.
  \<open>cancelled\<close> holds the timers that were cancelled before they fired: the Timer
  thread tests its cancel flag and then calls the function, so a cancel that arrives
  between the two does not stop the call.
\<close>

record system =
  system_state :: string
  trigger_timer :: "nat option"
  button_timer :: "nat option"
  alarm_timer :: "nat option"
  timers :: "timer list"
  cancelled :: "timer list"
  next_timer :: nat
  out :: "effect list"

definition SecuritySystem :: system where
  "SecuritySystem =
     \<lparr>system_state = ''disarmed'', trigger_timer = None, button_timer = None,
      alarm_timer = None, timers = [], cancelled = [], next_timer = 0, out = []\<rparr>"

definition emit :: "effect \<Rightarrow> system \<Rightarrow> system" where
  "emit e s = s\<lparr>out := out s @ [e]\<rparr>"

text \<open>\<^verbatim>\<open>threading.Timer(interval, function)\<close> followed by \<^verbatim>\<open>start()\<close>: a fresh Timer.\<close>

definition Timer_start :: "int \<Rightarrow> callback \<Rightarrow> system \<Rightarrow> nat \<times> system" where
  "Timer_start secs f s =
     (next_timer s,
      s\<lparr>timers := timers s @ [\<lparr>tid = next_timer s, interval = secs, target = f\<rparr>],
        next_timer := Suc (next_timer s)\<rparr>)"

text \<open>\<^verbatim>\<open>Timer.cancel()\<close>: no effect on a timer that has fired or was cancelled before.\<close>

definition Timer_cancel :: "nat \<Rightarrow> system \<Rightarrow> system" where
  "Timer_cancel t s =
     s\<lparr>timers := filter (\<lambda>x. tid x \<noteq> t) (timers s),
       cancelled := cancelled s @ filter (\<lambda>x. tid x = t) (timers s)\<rparr>"

subsection \<open>The methods of \<^verbatim>\<open>SecuritySystem\<close>\<close>

text \<open>Statements executed one after the other: \<open>seq [f, g, h] s = h (g (f s))\<close>.\<close>

definition seq :: "(system \<Rightarrow> system) list \<Rightarrow> system \<Rightarrow> system" where
  "seq fs s = fold (\<lambda>f. f) fs s"

definition set_state :: "string \<Rightarrow> system \<Rightarrow> system" where
  "set_state new_state s =
     (emit (Log INFO ''Status change: %s -> %s'' [AStr (system_state s), AStr new_state]) s)
       \<lparr>system_state := new_state\<rparr>"

text \<open>The dict literal of an LED command: the two lamps and the buzzer pattern.\<close>

definition led :: "string \<Rightarrow> string \<Rightarrow> json" where
  "led p1 p2 =
     JObj [(''power1'', JStr p1), (''power2'', JStr p2), (''buzzer'', JStr ''1,1,1,1'')]"

definition send_led_command :: "env \<Rightarrow> json \<Rightarrow> system \<Rightarrow> system" where
  "send_led_command cfg command_dict s =
     (case mqtt_publish cfg (ACCESS_COMMAND cfg) command_dict of
        None \<Rightarrow>
          seq [emit (Publish (ACCESS_COMMAND cfg) command_dict),
               emit (Log DEBUG ''LED command sent: %s'' [AJson command_dict])] s
      | Some e \<Rightarrow>
          seq [emit (Publish (ACCESS_COMMAND cfg) command_dict),
               emit (Log ERROR ''Error sending LED command: %s'' [AExn e])] s)"

definition state_msg :: "string \<Rightarrow> json" where
  "state_msg st =
     (if st \<in> set [''armed'', ''trigger_pending'', ''alarm''] then JObj [(''system'', JStr ''armed'')]
      else if st \<in> set [''disarmed'', ''button_pending''] then JObj [(''system'', JStr ''disarmed'')]
      else JObj [])"

definition publish_system_state :: "env \<Rightarrow> system \<Rightarrow> system" where
  "publish_system_state cfg s =
     (case mqtt_publish cfg (ACCESS_TOPIC_STATUS cfg) (state_msg (system_state s)) of
        None \<Rightarrow>
          seq [emit (Publish (ACCESS_TOPIC_STATUS cfg) (state_msg (system_state s))),
               emit (Log INFO ''System status published: %s'' [AJson (state_msg (system_state s))])] s
      | Some e \<Rightarrow>
          seq [emit (Publish (ACCESS_TOPIC_STATUS cfg) (state_msg (system_state s))),
               emit (Log ERROR ''Error publishing system status: %s'' [AExn e])] s)"

text \<open>\<^verbatim>\<open>telegram.py\<close>: one POST to the bot API; the result is the service's answer.\<close>

definition telegram_send_message ::
  "env \<Rightarrow> string \<Rightarrow> string \<Rightarrow> string \<Rightarrow> system \<Rightarrow> (exn + response) \<times> system" where
  "telegram_send_message cfg chat_id token txt s =
     (let url = ''https://api.telegram.org/bot'' @ token @ ''/sendMessage'';
          pl = JObj [(''chat_id'', JStr chat_id), (''text'', JStr txt)]
      in (http_post cfg url pl, emit (Post url pl) s))"

definition send_telegram_message :: "env \<Rightarrow> string \<Rightarrow> system \<Rightarrow> system" where
  "send_telegram_message cfg txt s =
     (if TELEGRAM_TOKEN cfg = [] \<or> TELEGRAM_CHATID cfg = [] then
        emit (Log WARNING ''Telegram not configured. Message not sent.'' []) s
      else
        (case telegram_send_message cfg (TELEGRAM_CHATID cfg) (TELEGRAM_TOKEN cfg)
                ''ALARM: the door has been opened with the alarm connected!!!'' s of
           (Inl e, s1) \<Rightarrow>
             emit (Log ERROR ''Exception when sending message to Telegram: %s'' [AExn e]) s1
         | (Inr r, s1) \<Rightarrow>
             if status_code r = 200 then
               emit (Log INFO ''Telegram message sent successfully.'' []) s1
             else
               emit (Log ERROR ''Error sending Telegram message: %s'' [AStr (body r)]) s1))"

definition start_trigger_timer :: "env \<Rightarrow> system \<Rightarrow> system" where
  "start_trigger_timer cfg s =
     (if system_state s \<noteq> ''armed'' then s
      else
        (case Timer_start (TRIGGER_TIME cfg) TriggerAlarm
                (seq [set_state ''trigger_pending'',
                      send_led_command cfg (led ''blink'' ''on'')] s) of
           (t, s1) \<Rightarrow> s1\<lparr>trigger_timer := Some t\<rparr>))"

definition cancel_trigger_timer :: "system \<Rightarrow> system" where
  "cancel_trigger_timer s =
     (case trigger_timer s of
        None \<Rightarrow> s
      | Some t \<Rightarrow> (Timer_cancel t s)\<lparr>trigger_timer := None\<rparr>)"

definition start_button_timer :: "env \<Rightarrow> system \<Rightarrow> system" where
  "start_button_timer cfg s =
     (case Timer_start (TRIGGER_TIME cfg) EndButtonTimer
             (seq [set_state ''button_pending'',
                   send_led_command cfg (led ''off'' ''blink'')] s) of
        (t, s1) \<Rightarrow> s1\<lparr>button_timer := Some t\<rparr>)"

definition end_button_timer :: "env \<Rightarrow> system \<Rightarrow> system" where
  "end_button_timer cfg s =
     seq [set_state ''armed'',
          send_led_command cfg (led ''off'' ''on''),
          publish_system_state cfg,
          emit (Log INFO ''End of ignore period. System armed.'' [])] s"

definition trigger_alarm :: "env \<Rightarrow> system \<Rightarrow> system" where
  "trigger_alarm cfg s =
     (if system_state s \<noteq> ''trigger_pending'' then s
      else
        (case Timer_start (ALARM_DURATION cfg) ResetAlarm
                (seq [set_state ''alarm'',
                      emit (Log WARNING ''Alarm activated! The alarm was not cancelled in time.'' []),
                      send_led_command cfg (led ''blink'' ''blink''),
                      send_telegram_message cfg ''Alarm: door opened without authorization.''] s) of
           (t, s1) \<Rightarrow> s1\<lparr>alarm_timer := Some t\<rparr>))"

text \<open>
  The two parts of \<^verbatim>\<open>trigger_alarm\<close>: what it does while it holds the lock (\<open>None\<close> when
  it returns there), and what it does after it has released the lock.
\<close>

definition trigger_alarm_locked :: "system \<Rightarrow> system option" where
  "trigger_alarm_locked s =
     (if system_state s \<noteq> ''trigger_pending'' then None else Some (set_state ''alarm'' s))"

definition trigger_alarm_unlocked :: "env \<Rightarrow> system \<Rightarrow> system" where
  "trigger_alarm_unlocked cfg s =
     (case Timer_start (ALARM_DURATION cfg) ResetAlarm
             (seq [emit (Log WARNING ''Alarm activated! The alarm was not cancelled in time.'' []),
                   send_led_command cfg (led ''blink'' ''blink''),
                   send_telegram_message cfg ''Alarm: door opened without authorization.''] s) of
        (t, s1) \<Rightarrow> s1\<lparr>alarm_timer := Some t\<rparr>)"

definition reset_alarm :: "env \<Rightarrow> system \<Rightarrow> system" where
  "reset_alarm cfg s =
     seq [set_state ''armed'',
          send_led_command cfg (led ''off'' ''on''),
          publish_system_state cfg,
          emit (Log INFO ''Alarm terminated. System re-armed.'' [])] s"

text \<open>
  A handler that can raise returns the exception it raised, if any, with the state at
  that point: what it did before the raise stays done.
\<close>

definition process_door_message :: "env \<Rightarrow> json \<Rightarrow> system \<Rightarrow> exn option \<times> system" where
  "process_door_message cfg data s =
     (case py_in ''contact'' data of
        Inl e \<Rightarrow> (Some e, s)
      | Inr present \<Rightarrow>
          if \<not> present then (None, s)
          else
            (case py_getitem data ''contact'' of
               Inl e \<Rightarrow> (Some e, s)
             | Inr door_closed \<Rightarrow>
                 if system_state s = ''armed'' then
                   (if \<not> truthy door_closed then
                      (None,
                       seq [emit (Log INFO ''Door open in armed mode. Starting alarm timer (%s s)''
                                    [AInt (TRIGGER_TIME cfg)]),
                            start_trigger_timer cfg] s)
                    else (None, emit (Log INFO ''Door closed in armed mode.'' []) s))
                 else
                   (None,
                    emit (Log DEBUG ''Door open in mode '%s'. Ignored.'' [AStr (system_state s)]) s)))"

text \<open>\<^verbatim>\<open>ACCESS_BUTTON_PAYLOAD in data and data[ACCESS_BUTTON_PAYLOAD] == "ON"\<close>\<close>

definition is_button :: "env \<Rightarrow> json \<Rightarrow> exn + bool" where
  "is_button cfg data =
     (case py_in (ACCESS_BUTTON_PAYLOAD cfg) data of
        Inl e \<Rightarrow> Inl e
      | Inr present \<Rightarrow>
          if \<not> present then Inr False
          else
            (case py_getitem data (ACCESS_BUTTON_PAYLOAD cfg) of
               Inl e \<Rightarrow> Inl e
             | Inr v \<Rightarrow> Inr (v = JStr ''ON'')))"

text \<open>\<^verbatim>\<open>"PN532" in data and "UID" in data["PN532"]\<close>\<close>

definition has_uid :: "json \<Rightarrow> exn + bool" where
  "has_uid data =
     (case py_in ''PN532'' data of
        Inl e \<Rightarrow> Inl e
      | Inr present \<Rightarrow>
          if \<not> present then Inr False
          else
            (case py_getitem data ''PN532'' of
               Inl e \<Rightarrow> Inl e
             | Inr v \<Rightarrow> py_in ''UID'' v))"

text \<open>
  \<^verbatim>\<open>any(user["uid"].lower() == uid.lower() for user in ALLOWED_USERS)\<close>: the entries are
  tried in order up to the first match; \<^verbatim>\<open>uid.lower()\<close> raises AttributeError when the
  value read from the message is not a str. The first argument is \<^verbatim>\<open>str.lower\<close>.
\<close>

fun any_user :: "(string \<Rightarrow> string) \<Rightarrow> user list \<Rightarrow> json \<Rightarrow> exn + bool" where
  "any_user lw [] u = Inr False"
| "any_user lw (usr # rest) (JStr x) =
     (if lw (uid usr) = lw x then Inr True else any_user lw rest (JStr x))"
| "any_user lw (usr # rest) u = Inl AttributeError"

definition process_access_message :: "env \<Rightarrow> json \<Rightarrow> system \<Rightarrow> exn option \<times> system" where
  "process_access_message cfg data s =
     (case is_button cfg data of
        Inl e \<Rightarrow> (Some e, s)
      | Inr button \<Rightarrow>
          if button then
            (None,
             if system_state s = ''disarmed'' then
               seq [emit (Log INFO ''Button pressed in disarmed mode. Starting ignore period (%s s)''
                            [AInt (TRIGGER_TIME cfg)]),
                    start_button_timer cfg] s
             else s)
          else
            (case has_uid data of
               Inl e \<Rightarrow> (Some e, s)
             | Inr nfc \<Rightarrow>
                 if \<not> nfc then (None, s)
                 else
                   (case py_getitem data ''PN532'' of
                      Inl e \<Rightarrow> (Some e, s)
                    | Inr pn \<Rightarrow>
                        (case py_getitem pn ''UID'' of
                           Inl e \<Rightarrow> (Some e, s)
                         | Inr u \<Rightarrow>
                             (let s1 = emit (Log INFO ''NFC card read. UID: %s'' [AJson u]) s in
                              case any_user (str_lower cfg) (ALLOWED_USERS cfg) u of
                                Inl e \<Rightarrow> (Some e, s1)
                              | Inr ok \<Rightarrow>
                                  if ok then
                                    (let s2 = emit (Log INFO ''Access allowed for UID %s'' [AJson u]) s1 in
                                     if system_state s2 = ''trigger_pending'' then
                                       (None,
                                        seq [cancel_trigger_timer,
                                             set_state ''disarmed'',
                                             send_led_command cfg (led ''on'' ''off''),
                                             publish_system_state cfg,
                                             emit (Log INFO ''Alarm cancelled by valid NFC. System disarmed.'' [])] s2)
                                     else if system_state s2 = ''alarm'' then
                                       (None,
                                        seq [(\<lambda>s. case alarm_timer s of
                                                     None \<Rightarrow> s
                                                   | Some t \<Rightarrow> (Timer_cancel t s)\<lparr>alarm_timer := None\<rparr>),
                                             set_state ''disarmed'',
                                             send_led_command cfg (led ''on'' ''off''),
                                             publish_system_state cfg,
                                             emit (Log INFO ''Alarm cancelled by valid NFC. System disarmed.'' [])] s2)
                                     else
                                       (None,
                                        seq [emit (Log INFO ''NFC read but system is not in alarm state (status: %s)''
                                                     [AStr (system_state s2)]),
                                             set_state ''disarmed'',
                                             send_led_command cfg (led ''on'' ''off''),
                                             publish_system_state cfg] s2))
                                  else
                                    (None, emit (Log WARNING ''Access denied for UID %s'' [AJson u]) s1))))))"

text \<open>
  The router. The second test is Python's \<^verbatim>\<open>topic == ACCESS_TOPIC or ACCESS_BUTTON\<close>:
  the right operand is the configured button topic itself, true when it is not empty.
\<close>

definition on_message :: "env \<Rightarrow> message \<Rightarrow> system \<Rightarrow> exn option \<times> system" where
  "on_message cfg msg s =
     (case payload msg of
        Inl e \<Rightarrow> (None, emit (Log ERROR ''Error decoding message: %s'' [AExn e]) s)
      | Inr data \<Rightarrow>
          (let s1 = emit (Log DEBUG ''Message received in: %s: %s'' [AStr (topic msg), AJson data]) s in
           if topic msg = DOOR_TOPIC cfg then process_door_message cfg data s1
           else if topic msg = ACCESS_TOPIC cfg \<or> ACCESS_BUTTON cfg \<noteq> [] then
             process_access_message cfg data s1
           else (None, emit (Log WARNING ''Message in unknown topic: %s'' [AStr (topic msg)]) s1)))"

subsection \<open>Runs\<close>

fun call :: "env \<Rightarrow> callback \<Rightarrow> system \<Rightarrow> system" where
  "call cfg TriggerAlarm s = trigger_alarm cfg s"
| "call cfg EndButtonTimer s = end_button_timer cfg s"
| "call cfg ResetAlarm s = reset_alarm cfg s"

text \<open>
  The timer with identity \<open>i\<close> reaches its deadline: it leaves the timer service and its
  function is called. Nothing happens when no such timer is outstanding.
\<close>

definition expire :: "env \<Rightarrow> nat \<Rightarrow> system \<Rightarrow> system" where
  "expire cfg i s =
     (case find (\<lambda>x. tid x = i) (timers s) of
        None \<Rightarrow> s
      | Some t \<Rightarrow> call cfg (target t) (s\<lparr>timers := filter (\<lambda>x. tid x \<noteq> i) (timers s)\<rparr>))"

text \<open>A timer that was cancelled too late calls its function all the same, once.\<close>

definition late :: "env \<Rightarrow> nat \<Rightarrow> system \<Rightarrow> system" where
  "late cfg i s =
     (case find (\<lambda>x. tid x = i) (cancelled s) of
        None \<Rightarrow> s
      | Some t \<Rightarrow> call cfg (target t) (s\<lparr>cancelled := filter (\<lambda>x. tid x \<noteq> i) (cancelled s)\<rparr>))"

text \<open>
  The states reached from the freshly constructed object by runs in which no callback
  starts before the one before it has ended: by an inbound message (whether or not its
  handler raised), by a timer reaching its deadline, or by the late call of a cancelled
  timer. These are states of the program; runs whose callbacks overlap reach others.
\<close>

inductive reachable :: "env \<Rightarrow> system \<Rightarrow> bool" for cfg :: env where
  init: "reachable cfg SecuritySystem"
| message: "reachable cfg s \<Longrightarrow> reachable cfg (snd (on_message cfg m s))"
| deadline: "reachable cfg s \<Longrightarrow> reachable cfg (expire cfg i s)"
| stale: "reachable cfg s \<Longrightarrow> reachable cfg (late cfg i s)"

text \<open>The effects a step added: what \<open>out\<close> holds beyond what it held before.\<close>

definition new_effects :: "system \<Rightarrow> system \<Rightarrow> effect list" where
  "new_effects s s' = drop (length (out s)) (out s')"

fun is_log :: "effect \<Rightarrow> bool" where
  "is_log (Log l f as) = True"
| "is_log (Publish t d) = False"
| "is_log (Post u d) = False"

definition published :: "system \<Rightarrow> system \<Rightarrow> effect list" where
  "published s s' = filter (\<lambda>e. \<not> is_log e) (new_effects s s')"

subsection \<open>The inbound payloads the handlers expect\<close>

text \<open>
  The door sensor sends \<^verbatim>\<open>{"contact": b}\<close> (true when the door is closed), the NFC
  reader \<^verbatim>\<open>{"PN532": {"UID": "..."}}\<close>, the button the configured field with the value
  \<^verbatim>\<open>"ON"\<close>.
\<close>

definition door_event :: "bool \<Rightarrow> json" where
  "door_event contact = JObj [(''contact'', JBool contact)]"

definition credential_read :: "string \<Rightarrow> json" where
  "credential_read x = JObj [(''PN532'', JObj [(''UID'', JStr x)])]"

definition button_press :: "env \<Rightarrow> json" where
  "button_press cfg = JObj [(ACCESS_BUTTON_PAYLOAD cfg, JStr ''ON'')]"

text \<open>A sequence of door messages, handled one after the other.\<close>

definition door_messages :: "env \<Rightarrow> json list \<Rightarrow> system \<Rightarrow> system" where
  "door_messages cfg ds s = fold (\<lambda>d s. snd (process_door_message cfg d s)) ds s"

text \<open>The five states the program sets.\<close>

definition states :: "string list" where
  "states = [''disarmed'', ''armed'', ''button_pending'', ''trigger_pending'', ''alarm'']"

subsection \<open>Properties of states\<close>

text \<open>
  A handle is \<open>outstanding\<close> for a callback when it holds the identity of a timer of
  the timer service that will call that callback.
\<close>

definition outstanding :: "system \<Rightarrow> nat option \<Rightarrow> callback \<Rightarrow> bool" where
  "outstanding s h f = list_ex (\<lambda>t. h = Some (tid t) \<and> target t = f) (timers s)"

subsection \<open>A configuration and some runs\<close>

text \<open>
  Every topic is set, the bus accepts every message and Telegram answers 200. The one
  allowed identifier is ASCII, as is every identifier read in the runs below, so
  \<open>ascii_lower\<close> is what \<^verbatim>\<open>str.lower\<close> does to them.
\<close>

definition example_env :: env where
  "example_env =
     \<lparr>DOOR_TOPIC = ''door'', ACCESS_TOPIC = ''access'', ACCESS_TOPIC_STATUS = ''status'',
      ACCESS_COMMAND = ''cmd'', ACCESS_BUTTON = ''button'', ACCESS_BUTTON_PAYLOAD = ''Switch1'',
      TRIGGER_TIME = 30, TELEGRAM_TOKEN = ''token'', TELEGRAM_CHATID = ''42'',
      ALLOWED_USERS = [\<lparr>uid = ''04A1B2''\<rparr>],
      str_lower = ascii_lower,
      mqtt_publish = (\<lambda>t d. None),
      http_post = (\<lambda>url d. Inr \<lparr>status_code = 200, body = ''ok''\<rparr>)\<rparr>"

text \<open>The same with no Telegram token, as when \<^verbatim>\<open>TELEGRAM_TOKEN\<close> is not set.\<close>

definition unconfigured_env :: env where
  "unconfigured_env = example_env\<lparr>TELEGRAM_TOKEN := []\<rparr>"

text \<open>The button is pressed and its grace window elapses: the system is armed.\<close>

definition armed_run :: "env \<Rightarrow> system" where
  "armed_run cfg =
     expire cfg 0
       (snd (on_message cfg \<lparr>topic = ACCESS_BUTTON cfg, payload = Inr (button_press cfg)\<rparr>
          SecuritySystem))"

text \<open>Then the door opens, and the trigger window and the reset window elapse.\<close>

definition door_opened_run :: "env \<Rightarrow> system" where
  "door_opened_run cfg =
     snd (on_message cfg \<lparr>topic = DOOR_TOPIC cfg, payload = Inr (door_event False)\<rparr> (armed_run cfg))"

definition alarm_run :: "env \<Rightarrow> system" where
  "alarm_run cfg = expire cfg 1 (door_opened_run cfg)"

definition rearmed_run :: "env \<Rightarrow> system" where
  "rearmed_run cfg = expire cfg 2 (alarm_run cfg)"

text \<open>The button is pressed and, within its grace window, an allowed card is read.\<close>

definition badge_after_button :: system where
  "badge_after_button =
     snd (on_message example_env \<lparr>topic = ''access'', payload = Inr (credential_read ''04a1b2'')\<rparr>
       (snd (on_message example_env \<lparr>topic = ''button'', payload = Inr (button_press example_env)\<rparr>
          SecuritySystem)))"

text \<open>
  The door was opened and the trigger timer reaches its deadline. Its callback has set
  the state to \<open>alarm\<close> and released the lock when an allowed card is read; only then
  does the callback go on and start the alarm timer.
\<close>

definition alarm_entered :: system where
  "alarm_entered =
     (case trigger_alarm_locked
             ((door_opened_run example_env)
                \<lparr>timers := filter (\<lambda>x. tid x \<noteq> 1) (timers (door_opened_run example_env))\<rparr>) of
        None \<Rightarrow> door_opened_run example_env
      | Some s \<Rightarrow> s)"

definition badge_inside_trigger_alarm :: system where
  "badge_inside_trigger_alarm =
     trigger_alarm_unlocked example_env
       (snd (on_message example_env \<lparr>topic = ''access'', payload = Inr (credential_read ''04a1b2'')\<rparr>
          alarm_entered))"

section \<open>Basic facts\<close>

lemmas effect_defs = emit_def seq_def new_effects_def published_def

text \<open>
  The two publishing methods add the call and one log entry, whose level and text
  depend on whether the call raised.
\<close>

lemma send_led_command_out:
  "send_led_command cfg d s =
     s\<lparr>out := out s @
       [Publish (ACCESS_COMMAND cfg) d,
        case mqtt_publish cfg (ACCESS_COMMAND cfg) d of
          None \<Rightarrow> Log DEBUG ''LED command sent: %s'' [AJson d]
        | Some e \<Rightarrow> Log ERROR ''Error sending LED command: %s'' [AExn e]]\<rparr>"
  by (simp add: send_led_command_def seq_def emit_def split: option.splits)

lemma publish_system_state_out:
  "publish_system_state cfg s =
     s\<lparr>out := out s @
       [Publish (ACCESS_TOPIC_STATUS cfg) (state_msg (system_state s)),
        case mqtt_publish cfg (ACCESS_TOPIC_STATUS cfg) (state_msg (system_state s)) of
          None \<Rightarrow> Log INFO ''System status published: %s'' [AJson (state_msg (system_state s))]
        | Some e \<Rightarrow> Log ERROR ''Error publishing system status: %s'' [AExn e]]\<rparr>"
  by (simp add: publish_system_state_def seq_def emit_def split: option.splits)

lemma is_log_outcome [simp]:
  "is_log (case r of None \<Rightarrow> Log l f as | Some e \<Rightarrow> Log l' f' (as' e))"
  by (simp split: option.splits)

lemmas op_defs = set_state_def send_led_command_out publish_system_state_out
  telegram_send_message_def send_telegram_message_def start_trigger_timer_def
  cancel_trigger_timer_def start_button_timer_def end_button_timer_def trigger_alarm_def
  reset_alarm_def Timer_start_def Timer_cancel_def

lemmas payload_defs = door_event_def credential_read_def button_press_def

lemmas handler_defs = on_message_def process_door_message_def process_access_message_def
  is_button_def has_uid_def expire_def late_def

lemmas run_defs = armed_run_def door_opened_run_def alarm_run_def rearmed_run_def
  badge_after_button_def example_env_def unconfigured_env_def SecuritySystem_def

lemma is_button_credential_read: "is_button cfg (credential_read x) = Inr False"
  by (simp add: is_button_def credential_read_def)

lemma has_uid_credential_read: "has_uid (credential_read x) = Inr True"
  by (simp add: has_uid_def credential_read_def)

lemma getitem_credential_read:
  "py_getitem (credential_read x) ''PN532'' = Inr (JObj [(''UID'', JStr x)])"
  by (simp add: credential_read_def)

lemma is_button_press: "is_button cfg (button_press cfg) = Inr True"
  by (simp add: is_button_def button_press_def)

text \<open>The allow-list test is a case-insensitive membership test.\<close>

lemma any_user_iff:
  "any_user lw us (JStr x) = Inr (\<exists>u \<in> set us. lw (uid u) = lw x)"
  by (induction us) auto

lemma trigger_alarm_guard:
  "system_state s \<noteq> ''trigger_pending'' \<Longrightarrow> trigger_alarm cfg s = s"
  by (simp add: trigger_alarm_def)

text \<open>\<open>trigger_alarm\<close> is its locked part followed by its unlocked part.\<close>

lemma trigger_alarm_split:
  "trigger_alarm cfg s =
     (case trigger_alarm_locked s of None \<Rightarrow> s | Some s1 \<Rightarrow> trigger_alarm_unlocked cfg s1)"
  by (simp add: trigger_alarm_def trigger_alarm_locked_def trigger_alarm_unlocked_def seq_def)

text \<open>What a card read does, for an allowed and for an unknown card.\<close>

lemma credential_read_allowed:
  assumes "\<exists>u \<in> set (ALLOWED_USERS cfg). str_lower cfg (uid u) = str_lower cfg x"
  shows "process_access_message cfg (credential_read x) s =
    (None,
     seq [emit (Log INFO ''NFC card read. UID: %s'' [AJson (JStr x)]),
          emit (Log INFO ''Access allowed for UID %s'' [AJson (JStr x)]),
          if system_state s = ''trigger_pending'' then
            seq [cancel_trigger_timer, set_state ''disarmed'',
                 send_led_command cfg (led ''on'' ''off''), publish_system_state cfg,
                 emit (Log INFO ''Alarm cancelled by valid NFC. System disarmed.'' [])]
          else if system_state s = ''alarm'' then
            seq [(\<lambda>s. case alarm_timer s of
                         None \<Rightarrow> s
                       | Some t \<Rightarrow> (Timer_cancel t s)\<lparr>alarm_timer := None\<rparr>),
                 set_state ''disarmed'',
                 send_led_command cfg (led ''on'' ''off''), publish_system_state cfg,
                 emit (Log INFO ''Alarm cancelled by valid NFC. System disarmed.'' [])]
          else
            seq [emit (Log INFO ''NFC read but system is not in alarm state (status: %s)''
                         [AStr (system_state s)]),
                 set_state ''disarmed'',
                 send_led_command cfg (led ''on'' ''off''), publish_system_state cfg]] s)"
  using assms
  by (simp add: process_access_message_def is_button_credential_read has_uid_credential_read
        getitem_credential_read any_user_iff Let_def seq_def emit_def)

lemma credential_read_denied:
  assumes "\<not> (\<exists>u \<in> set (ALLOWED_USERS cfg). str_lower cfg (uid u) = str_lower cfg x)"
  shows "process_access_message cfg (credential_read x) s =
    (None,
     s\<lparr>out := out s @ [Log INFO ''NFC card read. UID: %s'' [AJson (JStr x)],
                       Log WARNING ''Access denied for UID %s'' [AJson (JStr x)]]\<rparr>)"
  using assms
  by (simp add: process_access_message_def is_button_credential_read has_uid_credential_read
        getitem_credential_read any_user_iff Let_def emit_def)

text \<open>
  A message the router cannot decode is logged and dropped, and so is a JSON object on
  the door topic that has no \<^verbatim>\<open>contact\<close> field: one log call, nothing else.
\<close>

lemma undecodable_dropped:
  "on_message cfg \<lparr>topic = t, payload = Inl e\<rparr> s =
     (None, s\<lparr>out := out s @ [Log ERROR ''Error decoding message: %s'' [AExn e]]\<rparr>)"
  by (simp add: on_message_def emit_def)

lemma door_object_without_contact_dropped:
  assumes "''contact'' \<notin> set (map fst kvs)"
  shows "on_message cfg \<lparr>topic = DOOR_TOPIC cfg, payload = Inr (JObj kvs)\<rparr> s =
     (None, s\<lparr>out := out s @ [Log DEBUG ''Message received in: %s: %s''
                                [AStr (DOOR_TOPIC cfg), AJson (JObj kvs)]]\<rparr>)"
  using assms by (simp add: on_message_def process_door_message_def emit_def)

lemma access_object_without_fields_dropped:
  assumes "ACCESS_BUTTON_PAYLOAD cfg \<notin> set (map fst kvs)" and "''PN532'' \<notin> set (map fst kvs)"
    and "ACCESS_TOPIC cfg \<noteq> DOOR_TOPIC cfg"
  shows "on_message cfg \<lparr>topic = ACCESS_TOPIC cfg, payload = Inr (JObj kvs)\<rparr> s =
     (None, s\<lparr>out := out s @ [Log DEBUG ''Message received in: %s: %s''
                                [AStr (ACCESS_TOPIC cfg), AJson (JObj kvs)]]\<rparr>)"
  using assms
  by (simp add: on_message_def process_access_message_def is_button_def has_uid_def emit_def)

text \<open>Outside the armed state a door message changes nothing but the log.\<close>

lemma door_message_not_armed:
  "system_state s \<noteq> ''armed'' \<Longrightarrow>
     \<exists>es. snd (process_door_message cfg d s) = s\<lparr>out := out s @ es\<rparr>"
  by (auto simp: process_door_message_def effect_defs split: sum.splits intro: exI [of _ "[]"])

lemma door_messages_not_armed:
  "system_state s \<noteq> ''armed'' \<Longrightarrow> \<exists>es. door_messages cfg ds s = s\<lparr>out := out s @ es\<rparr>"
proof (induction ds arbitrary: s)
  case Nil
  show ?case by (auto simp: door_messages_def intro: exI [of _ "[]"])
next
  case (Cons d ds)
  from Cons.prems obtain es where
    first: "snd (process_door_message cfg d s) = s\<lparr>out := out s @ es\<rparr>"
    using door_message_not_armed by blast
  with Cons.prems have "system_state (snd (process_door_message cfg d s)) \<noteq> ''armed''"
    by simp
  from Cons.IH [OF this] obtain es' where
    "door_messages cfg ds (snd (process_door_message cfg d s)) =
       (snd (process_door_message cfg d s))\<lparr>out := out (snd (process_door_message cfg d s)) @ es'\<rparr>"
    by blast
  with first show ?case
    by (auto simp: door_messages_def intro: exI [of _ "es @ es'"])
qed

section \<open>Properties of the controller\<close>

lemma reachable_armed_run: "reachable cfg (armed_run cfg)"
  unfolding armed_run_def by (intro reachable.intros)

lemma reachable_door_opened_run: "reachable cfg (door_opened_run cfg)"
  unfolding door_opened_run_def by (intro reachable.intros reachable_armed_run)

lemma reachable_rearmed_run: "reachable cfg (rearmed_run cfg)"
  unfolding rearmed_run_def alarm_run_def by (intro reachable.intros reachable_door_opened_run)

lemma reachable_badge_after_button: "reachable example_env badge_after_button"
  unfolding badge_after_button_def by (intro reachable.intros)

lemma door_opened_run_example:
  "system_state (door_opened_run example_env) = ''trigger_pending''
   \<and> trigger_timer (door_opened_run example_env) = Some 1
   \<and> timers (door_opened_run example_env) = [\<lparr>tid = 1, interval = 30, target = TriggerAlarm\<rparr>]"
  by (simp add: run_defs handler_defs payload_defs effect_defs op_defs state_msg_def)

lemma allowed_example:
  "\<exists>u \<in> set (ALLOWED_USERS example_env). str_lower example_env (uid u) = str_lower example_env ''04a1b2''"
  by (simp add: example_env_def ascii_lower_def ascii_lower_char_def)

text \<open>
  C1. When the system is in \<open>trigger_pending\<close> and an allowed card is read, the trigger
  timer is cancelled, its handle is cleared and the state is \<open>disarmed\<close>; if the
  callback of the trigger timer runs after that, it changes nothing: neither the state
  nor the timers, and it issues no effect. In general \<open>trigger_alarm\<close> returns the
  state it was given unless that state is \<open>trigger_pending\<close>.
\<close>

theorem stale_trigger_timeout_changes_nothing:
  assumes "system_state s = ''trigger_pending''"
    and "\<exists>u \<in> set (ALLOWED_USERS cfg). str_lower cfg (uid u) = str_lower cfg x"
  shows "(let s' = snd (process_access_message cfg (credential_read x) s) in
            system_state s' = ''disarmed''
          \<and> trigger_timer s' = None
          \<and> \<not> outstanding s' (trigger_timer s) TriggerAlarm
          \<and> trigger_alarm cfg s' = s')
       \<and> (\<forall>r. system_state r \<noteq> ''trigger_pending'' \<longrightarrow> trigger_alarm cfg r = r)"
  using assms
  by (auto simp: credential_read_allowed trigger_alarm_guard Let_def outstanding_def list_ex_iff
        effect_defs set_state_def send_led_command_out publish_system_state_out
        cancel_trigger_timer_def Timer_cancel_def
      split: option.splits)

theorem stale_trigger_timeout_witness:
  "system_state (door_opened_run example_env) = ''trigger_pending''
   \<and> (\<exists>u \<in> set (ALLOWED_USERS example_env). str_lower example_env (uid u) = str_lower example_env ''04a1b2'')
   \<and> system_state
        (trigger_alarm example_env
           (snd (process_access_message example_env (credential_read ''04a1b2'')
              (door_opened_run example_env)))) = ''disarmed''"
proof -
  have 1: "system_state (door_opened_run example_env) = ''trigger_pending''"
    by (simp add: door_opened_run_example)
  from stale_trigger_timeout_changes_nothing [OF 1 allowed_example]
  show ?thesis using 1 allowed_example by (simp add: Let_def)
qed

text \<open>
  C3. A door message with \<^verbatim>\<open>contact\<close> false (the door opens) sets the state to
  \<open>trigger_pending\<close> when the state is \<open>armed\<close> and leaves it as it is otherwise, so it
  changes the state exactly when the state is \<open>armed\<close>. A door message with
  \<^verbatim>\<open>contact\<close> true (the door closes) only logs, in every state: the state, the
  handles and the timers, a started trigger timer among them, stay as they are. Outside
  \<open>armed\<close> the same holds for the opening door.
\<close>

theorem door_event_transition:
  "fst (process_door_message cfg (door_event contact) s) = None
   \<and> system_state (snd (process_door_message cfg (door_event contact) s)) =
       (if system_state s = ''armed'' \<and> \<not> contact then ''trigger_pending'' else system_state s)
   \<and> (system_state (snd (process_door_message cfg (door_event False) s)) \<noteq> system_state s)
       = (system_state s = ''armed'')
   \<and> snd (process_door_message cfg (door_event True) s) =
       s\<lparr>out := out s @
         [if system_state s = ''armed'' then Log INFO ''Door closed in armed mode.'' []
          else Log DEBUG ''Door open in mode '%s'. Ignored.'' [AStr (system_state s)]]\<rparr>
   \<and> (if system_state s = ''armed'' then
        trigger_timer (snd (process_door_message cfg (door_event False) s)) = Some (next_timer s)
        \<and> timers (snd (process_door_message cfg (door_event False) s)) =
            timers s @ [\<lparr>tid = next_timer s, interval = TRIGGER_TIME cfg, target = TriggerAlarm\<rparr>]
      else
        snd (process_door_message cfg (door_event False) s) =
          s\<lparr>out := out s @ [Log DEBUG ''Door open in mode '%s'. Ignored.'' [AStr (system_state s)]]\<rparr>)"
  by (auto simp: process_door_message_def door_event_def effect_defs op_defs)

text \<open>
  C5. A card read never raises. When the identifier equals, letter case apart, the
  \<^verbatim>\<open>uid\<close> of an entry of the allow-list (\<^verbatim>\<open>str.lower\<close> gives the same str for both,
  whatever \<^verbatim>\<open>str.lower\<close> does to them), the new state is \<open>disarmed\<close> whatever the state
  was, the messages handed to the bus are the LED command on/off and then the status
  \<^verbatim>\<open>{"system": "disarmed"}\<close>; from \<open>trigger_pending\<close> the trigger timer is cancelled and
  its handle cleared, from \<open>alarm\<close> the alarm timer. When no entry matches, the read is
  logged as denied and nothing else changes.
\<close>

theorem credential_read_transition:
  "(let r = process_access_message cfg (credential_read x) s; s' = snd r in
     fst r = None
     \<and> (if \<exists>u \<in> set (ALLOWED_USERS cfg). str_lower cfg (uid u) = str_lower cfg x then
          system_state s' = ''disarmed''
          \<and> published s s' =
              [Publish (ACCESS_COMMAND cfg) (led ''on'' ''off''),
               Publish (ACCESS_TOPIC_STATUS cfg) (JObj [(''system'', JStr ''disarmed'')])]
          \<and> (if system_state s = ''trigger_pending'' then
                trigger_timer s' = None
                \<and> timers s' = (case trigger_timer s of
                                 None \<Rightarrow> timers s
                               | Some t \<Rightarrow> filter (\<lambda>x. tid x \<noteq> t) (timers s))
              else if system_state s = ''alarm'' then
                alarm_timer s' = None
                \<and> timers s' = (case alarm_timer s of
                                 None \<Rightarrow> timers s
                               | Some t \<Rightarrow> filter (\<lambda>x. tid x \<noteq> t) (timers s))
              else timers s' = timers s)
        else
          s' = s\<lparr>out := out s @ [Log INFO ''NFC card read. UID: %s'' [AJson (JStr x)],
                                 Log WARNING ''Access denied for UID %s'' [AJson (JStr x)]]\<rparr>))"
proof (cases "\<exists>u \<in> set (ALLOWED_USERS cfg). str_lower cfg (uid u) = str_lower cfg x")
  case True
  then show ?thesis
    by (auto simp: credential_read_allowed Let_def effect_defs set_state_def send_led_command_out
          publish_system_state_out cancel_trigger_timer_def Timer_cancel_def state_msg_def
        split: option.splits)
next
  case False
  then show ?thesis
    by (simp add: credential_read_denied Let_def)
qed

text \<open>
  C6. A button press never raises. It sets the state to \<open>button_pending\<close> and starts
  the button timer when the state is \<open>disarmed\<close>, and changes nothing at all in any
  other state. When the button timer calls \<open>end_button_timer\<close> the state becomes
  \<open>armed\<close> whatever it was, the LED command off/on and the status
  \<^verbatim>\<open>{"system": "armed"}\<close> are handed to the bus; door messages that arrive while the
  state is \<open>button_pending\<close>, whatever their payloads, leave the state, the button timer
  and its handle as they are, and the callback arms the system after them too.
\<close>

theorem button_press_cycle:
  "fst (process_access_message cfg (button_press cfg) s) = None
   \<and> system_state (snd (process_access_message cfg (button_press cfg) s)) =
       (if system_state s = ''disarmed'' then ''button_pending'' else system_state s)
   \<and> (if system_state s = ''disarmed'' then
        button_timer (snd (process_access_message cfg (button_press cfg) s)) = Some (next_timer s)
        \<and> timers (snd (process_access_message cfg (button_press cfg) s)) =
            timers s @ [\<lparr>tid = next_timer s, interval = TRIGGER_TIME cfg, target = EndButtonTimer\<rparr>]
        \<and> published s (snd (process_access_message cfg (button_press cfg) s)) =
            [Publish (ACCESS_COMMAND cfg) (led ''off'' ''blink'')]
      else snd (process_access_message cfg (button_press cfg) s) = s)
   \<and> system_state (end_button_timer cfg s) = ''armed''
   \<and> published s (end_button_timer cfg s) =
       [Publish (ACCESS_COMMAND cfg) (led ''off'' ''on''),
        Publish (ACCESS_TOPIC_STATUS cfg) (JObj [(''system'', JStr ''armed'')])]
   \<and> (if system_state s = ''button_pending'' then
        system_state (door_messages cfg ds s) = ''button_pending''
        \<and> timers (door_messages cfg ds s) = timers s
        \<and> button_timer (door_messages cfg ds s) = button_timer s
        \<and> system_state (end_button_timer cfg (door_messages cfg ds s)) = ''armed''
      else True)"
proof -
  have a: "fst (process_access_message cfg (button_press cfg) s) = None"
    by (simp add: process_access_message_def is_button_press)
  have b: "system_state (snd (process_access_message cfg (button_press cfg) s)) =
       (if system_state s = ''disarmed'' then ''button_pending'' else system_state s)"
    by (simp add: process_access_message_def is_button_press effect_defs op_defs)
  have c: "(if system_state s = ''disarmed'' then
        button_timer (snd (process_access_message cfg (button_press cfg) s)) = Some (next_timer s)
        \<and> timers (snd (process_access_message cfg (button_press cfg) s)) =
            timers s @ [\<lparr>tid = next_timer s, interval = TRIGGER_TIME cfg, target = EndButtonTimer\<rparr>]
        \<and> published s (snd (process_access_message cfg (button_press cfg) s)) =
            [Publish (ACCESS_COMMAND cfg) (led ''off'' ''blink'')]
      else snd (process_access_message cfg (button_press cfg) s) = s)"
    by (simp add: process_access_message_def is_button_press effect_defs op_defs)
  have d: "system_state (end_button_timer cfg r) = ''armed''" for r
    by (simp add: effect_defs op_defs)
  have e: "published s (end_button_timer cfg s) =
       [Publish (ACCESS_COMMAND cfg) (led ''off'' ''on''),
        Publish (ACCESS_TOPIC_STATUS cfg) (JObj [(''system'', JStr ''armed'')])]"
    by (simp add: effect_defs op_defs state_msg_def)
  have f: "system_state (door_messages cfg ds s) = ''button_pending''
        \<and> timers (door_messages cfg ds s) = timers s
        \<and> button_timer (door_messages cfg ds s) = button_timer s"
    if "system_state s = ''button_pending''"
  proof -
    from that have "system_state s \<noteq> ''armed''" by simp
    from door_messages_not_armed [OF this, of cfg ds] obtain es where
      "door_messages cfg ds s = s\<lparr>out := out s @ es\<rparr>" by blast
    with that show ?thesis by simp
  qed
  from a b c d e f show ?thesis by simp
qed

text \<open>
  C8. In each of the five states, \<open>publish_system_state\<close> hands one message to the bus,
  on the status topic: it is \<^verbatim>\<open>{"system": "armed"}\<close> exactly when the state is \<open>armed\<close>,
  \<open>trigger_pending\<close> or \<open>alarm\<close>, and \<^verbatim>\<open>{"system": "disarmed"}\<close> exactly when the state is
  \<open>disarmed\<close> or \<open>button_pending\<close>. The state itself is not changed.
\<close>

theorem published_status_by_state:
  assumes "system_state s \<in> set states"
  shows "(published s (publish_system_state cfg s) =
            [Publish (ACCESS_TOPIC_STATUS cfg) (JObj [(''system'', JStr ''armed'')])])
          = (system_state s \<in> set [''armed'', ''trigger_pending'', ''alarm''])
       \<and> (published s (publish_system_state cfg s) =
            [Publish (ACCESS_TOPIC_STATUS cfg) (JObj [(''system'', JStr ''disarmed'')])])
          = (system_state s \<in> set [''disarmed'', ''button_pending''])
       \<and> system_state (publish_system_state cfg s) = system_state s"
  using assms by (auto simp: states_def effect_defs op_defs state_msg_def)

theorem published_status_witness:
  "system_state SecuritySystem \<in> set states
   \<and> published SecuritySystem (publish_system_state example_env SecuritySystem) =
       [Publish ''status'' (JObj [(''system'', JStr ''disarmed'')])]"
proof -
  have 1: "system_state SecuritySystem \<in> set states"
    by (simp add: SecuritySystem_def states_def)
  from published_status_by_state [OF 1, of example_env] show ?thesis
    using 1 by (simp add: SecuritySystem_def example_env_def)
qed

text \<open>
  C10. \<open>send_telegram_message\<close> does the same whatever text it is given. When the token
  and the chat id are both set, the one request it makes carries the fixed text
  "ALARM: the door has been opened with the alarm connected!!!" to the configured chat;
  when one of them is empty it makes no request and its only effect is one warning in
  the log.
\<close>

theorem telegram_message_is_fixed:
  "send_telegram_message cfg txt s = send_telegram_message cfg txt' s
   \<and> published s (send_telegram_message cfg txt s) =
       (if TELEGRAM_TOKEN cfg = [] \<or> TELEGRAM_CHATID cfg = [] then []
        else [Post (''https://api.telegram.org/bot'' @ TELEGRAM_TOKEN cfg @ ''/sendMessage'')
                (JObj [(''chat_id'', JStr (TELEGRAM_CHATID cfg)),
                       (''text'', JStr ''ALARM: the door has been opened with the alarm connected!!!'')])])
   \<and> (if TELEGRAM_TOKEN cfg = [] \<or> TELEGRAM_CHATID cfg = [] then
        send_telegram_message cfg txt s =
          s\<lparr>out := out s @ [Log WARNING ''Telegram not configured. Message not sent.'' []]\<rparr>
      else True)"
  by (auto simp: effect_defs op_defs Let_def split: sum.splits)

text \<open>
  C4. From \<open>armed\<close>, an opening door gives \<open>trigger_pending\<close>; the callback of the
  trigger timer then gives \<open>alarm\<close>, hands the LED command blink/blink to the bus, starts
  the alarm timer and, when the Telegram token and chat id are both set, makes exactly
  one request to Telegram (none when one of them is empty); the callback of the alarm
  timer then gives \<open>armed\<close> and hands the LED command off/on and the status
  \<^verbatim>\<open>{"system": "armed"}\<close> to the bus.
\<close>

theorem escalation_cycle:
  assumes "system_state s = ''armed''"
  shows "(let s1 = snd (process_door_message cfg (door_event False) s);
              s2 = trigger_alarm cfg s1;
              s3 = reset_alarm cfg s2
          in system_state s1 = ''trigger_pending''
           \<and> system_state s2 = ''alarm''
           \<and> published s1 s2 =
               Publish (ACCESS_COMMAND cfg) (led ''blink'' ''blink'') #
               (if TELEGRAM_TOKEN cfg = [] \<or> TELEGRAM_CHATID cfg = [] then []
                else [Post (''https://api.telegram.org/bot'' @ TELEGRAM_TOKEN cfg @ ''/sendMessage'')
                        (JObj [(''chat_id'', JStr (TELEGRAM_CHATID cfg)),
                               (''text'', JStr ''ALARM: the door has been opened with the alarm connected!!!'')])])
           \<and> alarm_timer s2 = Some (next_timer s1)
           \<and> timers s2 = timers s1 @
               [\<lparr>tid = next_timer s1, interval = ALARM_DURATION cfg, target = ResetAlarm\<rparr>]
           \<and> system_state s3 = ''armed''
           \<and> published s2 s3 =
               [Publish (ACCESS_COMMAND cfg) (led ''off'' ''on''),
                Publish (ACCESS_TOPIC_STATUS cfg) (JObj [(''system'', JStr ''armed'')])])"
  using assms
  by (auto simp: process_door_message_def door_event_def effect_defs op_defs state_msg_def Let_def
      split: sum.splits)

theorem escalation_cycle_witness:
  "system_state (armed_run example_env) = ''armed''
   \<and> system_state
        (trigger_alarm example_env
           (snd (process_door_message example_env (door_event False) (armed_run example_env))))
       = ''alarm''"
proof -
  have 1: "system_state (armed_run example_env) = ''armed''"
    by (simp add: run_defs handler_defs payload_defs effect_defs op_defs)
  from escalation_cycle [OF 1, of example_env] show ?thesis
    using 1 by (simp add: Let_def)
qed

text \<open>
  C4 as the specification states it fails when no Telegram token is configured: the
  run goes through \<open>trigger_pending\<close> and \<open>alarm\<close> back to \<open>armed\<close>, and on entry to
  \<open>alarm\<close> the only effects are log calls and the LED command: no request is made.
\<close>

theorem escalation_without_token_sends_nothing:
  "system_state (armed_run unconfigured_env) = ''armed''
   \<and> system_state (door_opened_run unconfigured_env) = ''trigger_pending''
   \<and> system_state (alarm_run unconfigured_env) = ''alarm''
   \<and> new_effects (door_opened_run unconfigured_env) (alarm_run unconfigured_env) =
       [Log INFO ''Status change: %s -> %s'' [AStr ''trigger_pending'', AStr ''alarm''],
        Log WARNING ''Alarm activated! The alarm was not cancelled in time.'' [],
        Publish ''cmd'' (led ''blink'' ''blink''),
        Log DEBUG ''LED command sent: %s'' [AJson (led ''blink'' ''blink'')],
        Log WARNING ''Telegram not configured. Message not sent.'' []]
   \<and> system_state (rearmed_run unconfigured_env) = ''armed''"
  by (simp add: run_defs handler_defs payload_defs effect_defs op_defs state_msg_def)

text \<open>
  C2. The handles do not follow the states, and a state can be left with its timer
  still running. After the button was pressed and an allowed card was read, the state
  is \<open>disarmed\<close> while the handle of the button timer is still set and its timer still
  outstanding: the card read left \<open>button_pending\<close> without cancelling it (the branches
  for \<open>trigger_pending\<close> and \<open>alarm\<close> cancel theirs), and when it reaches its deadline
  the system arms itself. And after a whole escalation cycle the state is \<open>armed\<close>, no
  timer is outstanding, and all three handles are still set: no callback clears the
  handle of the timer that called it.
\<close>

theorem handles_outlive_their_states:
  "reachable example_env badge_after_button
   \<and> system_state badge_after_button = ''disarmed''
   \<and> button_timer badge_after_button = Some 0
   \<and> timers badge_after_button = [\<lparr>tid = 0, interval = 30, target = EndButtonTimer\<rparr>]
   \<and> system_state (expire example_env 0 badge_after_button) = ''armed''
   \<and> reachable example_env (rearmed_run example_env)
   \<and> system_state (rearmed_run example_env) = ''armed''
   \<and> timers (rearmed_run example_env) = []
   \<and> trigger_timer (rearmed_run example_env) = Some 1
   \<and> button_timer (rearmed_run example_env) = Some 0
   \<and> alarm_timer (rearmed_run example_env) = Some 2"
proof -
  have "system_state badge_after_button = ''disarmed''
   \<and> button_timer badge_after_button = Some 0
   \<and> timers badge_after_button = [\<lparr>tid = 0, interval = 30, target = EndButtonTimer\<rparr>]
   \<and> system_state (expire example_env 0 badge_after_button) = ''armed''"
    by (simp add: run_defs handler_defs payload_defs effect_defs op_defs state_msg_def
          ascii_lower_def ascii_lower_char_def)
  moreover have "system_state (rearmed_run example_env) = ''armed''
   \<and> timers (rearmed_run example_env) = []
   \<and> trigger_timer (rearmed_run example_env) = Some 1
   \<and> button_timer (rearmed_run example_env) = Some 0
   \<and> alarm_timer (rearmed_run example_env) = Some 2"
    by (simp add: run_defs handler_defs payload_defs effect_defs op_defs state_msg_def)
  ultimately show ?thesis
    using reachable_badge_after_button reachable_rearmed_run [of example_env] by simp
qed

text \<open>
  The alarm timer can outlive its state as well. \<open>trigger_alarm\<close> stores the handle of
  the alarm timer after it has released the lock. A card read handled in between finds
  the state \<open>alarm\<close> and no handle, cancels nothing and disarms; the callback then starts
  the alarm timer, and at its deadline the system is armed again.
\<close>

lemma card_read_inside_trigger_alarm:
  "system_state alarm_entered = ''alarm''
   \<and> alarm_timer alarm_entered = None
   \<and> system_state badge_inside_trigger_alarm = ''disarmed''
   \<and> alarm_timer badge_inside_trigger_alarm = Some 2
   \<and> timers badge_inside_trigger_alarm = [\<lparr>tid = 2, interval = 30, target = ResetAlarm\<rparr>]
   \<and> system_state (expire example_env 2 badge_inside_trigger_alarm) = ''armed''"
  by (simp add: alarm_entered_def badge_inside_trigger_alarm_def trigger_alarm_locked_def
        trigger_alarm_unlocked_def ALARM_DURATION_def run_defs handler_defs payload_defs
        effect_defs op_defs state_msg_def ascii_lower_def ascii_lower_char_def)

text \<open>
  C7. With a button topic configured, a message on a topic that is none of the door,
  access and button topics is not dropped: it reaches \<open>process_access_message\<close>. Here
  a button payload on the topic \<^verbatim>\<open>garage\<close> takes the freshly started system to
  \<open>button_pending\<close>, and the warning for an unknown topic is not logged.
\<close>

theorem unknown_topic_reaches_access_handler:
  "''garage'' \<notin> set [DOOR_TOPIC example_env, ACCESS_TOPIC example_env, ACCESS_BUTTON example_env]
   \<and> on_message example_env \<lparr>topic = ''garage'', payload = Inr (button_press example_env)\<rparr> SecuritySystem =
       (None,
        snd (process_access_message example_env (button_press example_env)
          (emit (Log DEBUG ''Message received in: %s: %s''
                   [AStr ''garage'', AJson (button_press example_env)]) SecuritySystem)))
   \<and> system_state
        (snd (on_message example_env \<lparr>topic = ''garage'', payload = Inr (button_press example_env)\<rparr>
           SecuritySystem)) = ''button_pending''"
  by (simp add: run_defs handler_defs payload_defs effect_defs op_defs)

text \<open>
  C9. A payload that is valid JSON but not an object, here the number 5 on the door
  topic, makes the handler raise: \<^verbatim>\<open>"contact" not in data\<close> is a TypeError for an int.
  The state is unchanged and the one log entry is the debug line of the router.
\<close>

theorem non_object_payload_raises:
  "on_message example_env \<lparr>topic = ''door'', payload = Inr (JInt 5)\<rparr> SecuritySystem =
     (Some TypeError,
      SecuritySystem\<lparr>out := [Log DEBUG ''Message received in: %s: %s'' [AStr ''door'', AJson (JInt 5)]]\<rparr>)"
  by (simp add: run_defs handler_defs payload_defs effect_defs op_defs)

end
